theory Spec2Isabelle
  imports Main "HOL-Library.Word"
begin

unbundle bit_operations_syntax

section \<open>Shared data: bytes, hexadecimal text\<close>

type_synonym byte = "8 word"

text \<open>
  Go's \<open>encoding/hex\<close>. \<open>hex.EncodeToString\<close> writes two lower-case digits per byte;
  \<open>hex.DecodeString\<close> accepts both cases and reports an error (here \<open>None\<close>) on a
  character that is no hexadecimal digit and on an odd length.
\<close>

definition hextable :: string where
  "hextable = ''0123456789abcdef''"

definition hexByte :: "byte \<Rightarrow> string" where
  "hexByte b = [hextable ! (unat b div 16), hextable ! (unat b mod 16)]"

definition hexEncodeToString :: "byte list \<Rightarrow> string" where
  "hexEncodeToString bs = concat (map hexByte bs)"

definition fromHexChar :: "char \<Rightarrow> nat option" where
  "fromHexChar c =
     (let n = of_char c :: nat in
      if 48 \<le> n \<and> n \<le> 57 then Some (n - 48)
      else if 97 \<le> n \<and> n \<le> 102 then Some (n - 97 + 10)
      else if 65 \<le> n \<and> n \<le> 70 then Some (n - 65 + 10)
      else None)"

fun hexDecodeString :: "string \<Rightarrow> byte list option" where
  "hexDecodeString [] = Some []"
| "hexDecodeString [p] = None"
| "hexDecodeString (p # q # rest) =
     (case fromHexChar p of
        None \<Rightarrow> None
      | Some a \<Rightarrow>
          (case fromHexChar q of
             None \<Rightarrow> None
           | Some b \<Rightarrow>
               (case hexDecodeString rest of
                  None \<Rightarrow> None
                | Some bs \<Rightarrow> Some (of_nat (a * 16 + b) # bs))))"

section \<open>Litecoin: SendLitecoinTransaction\<close>

text \<open>
  \<open>btcutil.Amount\<close> is Go's \<open>int64\<close>: a 64-bit word whose additions and subtractions
  wrap around silently and whose comparisons are signed (\<open>\<le>s\<close>, \<open><s\<close>; \<open>sint\<close> reads
  the value).
\<close>

type_synonym Amount = "64 word"

text \<open>
  One entry of the list returned by \<open>ListUnspentMinMaxAddresses\<close>
  (\<open>btcjson.ListUnspentResult\<close>), with the fields the function reads. The field
  \<open>Amount\<close> holds the satoshi value \<open>btcutil.Amount(utxo.Amount * 1e8)\<close> that the loop adds
  to \<open>totalInput\<close>; the floating-point product and its truncation are not modelled.
\<close>

record utxo =
  TxID :: string
  Vout :: "32 word"
  ScriptPubKey :: string
  Amount :: Amount

text \<open>The parts of btcd's \<open>wire.MsgTx\<close> that the function fills.\<close>

record out_point =
  Hash :: "byte list"
  Index :: "32 word"

record tx_in =
  PreviousOutPoint :: out_point
  SignatureScript :: "byte list"
  Sequence :: "32 word"

record tx_out =
  Value :: Amount
  PkScript :: "byte list"

record msg_tx =
  Version :: "32 word"
  TxIn :: "tx_in list"
  TxOut :: "tx_out list"
  LockTime :: "32 word"

datatype error =
    NoUnspentOutputs
  | InvalidTxid
  | InsufficientFunds
  | PkScriptFailed
  | ChangeScriptFailed
  | ScriptPubKeyDecodeFailed
  | SignFailed
  | IndexOutOfRange

text \<open>\<open>var hash chainhash.Hash; copy(hash[:], txid)\<close>: a zeroed 32-byte array receives
  the first \<open>min 32 (len txid)\<close> bytes.\<close>

definition copyHash :: "byte list \<Rightarrow> byte list" where
  "copyHash txid = take 32 txid @ replicate (32 - length txid) 0"

definition NewOutPoint :: "byte list \<Rightarrow> 32 word \<Rightarrow> out_point" where
  "NewOutPoint h i = \<lparr>Hash = h, Index = i\<rparr>"

definition NewTxIn :: "out_point \<Rightarrow> tx_in" where
  "NewTxIn op = \<lparr>PreviousOutPoint = op, SignatureScript = [], Sequence = 0xffffffff\<rparr>"

definition NewTxOut :: "Amount \<Rightarrow> byte list \<Rightarrow> tx_out" where
  "NewTxOut v s = \<lparr>Value = v, PkScript = s\<rparr>"

definition NewMsgTx :: "32 word \<Rightarrow> msg_tx" where
  "NewMsgTx v = \<lparr>Version = v, TxIn = [], TxOut = [], LockTime = 0\<rparr>"

text \<open>Lines 113 to 120: the input made from one unspent output, or the txid error.\<close>

definition inputOf :: "utxo \<Rightarrow> tx_in option" where
  "inputOf u =
     (case hexDecodeString (TxID u) of
        None \<Rightarrow> None
      | Some txid \<Rightarrow> Some (NewTxIn (NewOutPoint (copyHash txid) (Vout u))))"

text \<open>
  The loop of lines 112 to 126 over the remaining unspent outputs, with the inputs added so
  far and \<open>totalInput\<close>. It stops (\<open>break\<close>) once \<open>totalInput >= amount+1000\<close>.
\<close>

fun selectInputs :: "Amount \<Rightarrow> utxo list \<Rightarrow> tx_in list \<Rightarrow> Amount \<Rightarrow> error + (tx_in list \<times> Amount)" where
  "selectInputs amount [] ins totalInput = Inr (ins, totalInput)"
| "selectInputs amount (u # us) ins totalInput =
     (case inputOf u of
        None \<Rightarrow> Inl InvalidTxid
      | Some txIn \<Rightarrow>
          (let ins' = ins @ [txIn];
               totalInput' = totalInput + Amount u
           in if amount + 1000 \<le>s totalInput' then Inr (ins', totalInput')
              else selectInputs amount us ins' totalInput'))"

text \<open>
  Lines 104 to 147: the unsigned transaction. \<open>payToAddrScript\<close> stands for
  \<open>txscript.PayToAddrScript\<close> (\<open>None\<close> is its error), \<open>toAddr\<close> and \<open>fromAddr\<close> for the
  decoded destination and the sender's own address.
\<close>

definition buildTx ::
  "('addr \<Rightarrow> byte list option) \<Rightarrow> 'addr \<Rightarrow> 'addr \<Rightarrow> Amount \<Rightarrow> utxo list \<Rightarrow> error + msg_tx" where
  "buildTx payToAddrScript toAddr fromAddr amount utxos =
     (if utxos = [] then Inl NoUnspentOutputs
      else
        (case selectInputs amount utxos [] 0 of
           Inl e \<Rightarrow> Inl e
         | Inr (ins, totalInput) \<Rightarrow>
             if totalInput <s amount + 1000 then Inl InsufficientFunds
             else
               (case payToAddrScript toAddr of
                  None \<Rightarrow> Inl PkScriptFailed
                | Some pkScript \<Rightarrow>
                    (let tx = (NewMsgTx 1)\<lparr>TxIn := ins, TxOut := [NewTxOut amount pkScript]\<rparr>;
                         change = totalInput - amount - 1000
                     in if 0 <s change then
                          (case payToAddrScript fromAddr of
                             None \<Rightarrow> Inl ChangeScriptFailed
                           | Some changeScript \<Rightarrow>
                               Inr (tx\<lparr>TxOut := TxOut tx @ [NewTxOut change changeScript]\<rparr>))
                        else Inr tx))))"

text \<open>
  Lines 150 to 160: the signing loop over the indices of \<open>tx.TxIn\<close>. \<open>signatureScript\<close>
  stands for \<open>txscript.SignatureScript\<close> with the fixed hash type, key and compression flag
  (\<open>None\<close> is its error). \<open>utxos[i]\<close> panics in Go when \<open>i\<close> is out of range.
\<close>

fun signInputs ::
  "(msg_tx \<Rightarrow> nat \<Rightarrow> byte list \<Rightarrow> byte list option) \<Rightarrow> utxo list \<Rightarrow> msg_tx \<Rightarrow> nat list \<Rightarrow> error + msg_tx" where
  "signInputs signatureScript utxos tx [] = Inr tx"
| "signInputs signatureScript utxos tx (i # is) =
     (if length utxos \<le> i then Inl IndexOutOfRange
      else
        (case hexDecodeString (ScriptPubKey (utxos ! i)) of
           None \<Rightarrow> Inl ScriptPubKeyDecodeFailed
         | Some scriptPubKey \<Rightarrow>
             (case signatureScript tx i scriptPubKey of
                None \<Rightarrow> Inl SignFailed
              | Some sigScript \<Rightarrow>
                  signInputs signatureScript utxos
                    (tx\<lparr>TxIn := (TxIn tx)[i := (TxIn tx ! i)\<lparr>SignatureScript := sigScript\<rparr>]\<rparr>) is)))"

text \<open>The function from the check of the unspent list to the signed transaction that is
  handed to \<open>SendRawTransaction\<close>.\<close>

definition SendLitecoinTransaction ::
  "('addr \<Rightarrow> byte list option) \<Rightarrow> (msg_tx \<Rightarrow> nat \<Rightarrow> byte list \<Rightarrow> byte list option) \<Rightarrow>
   'addr \<Rightarrow> 'addr \<Rightarrow> Amount \<Rightarrow> utxo list \<Rightarrow> error + msg_tx" where
  "SendLitecoinTransaction payToAddrScript signatureScript toAddr fromAddr amount utxos =
     (case buildTx payToAddrScript toAddr fromAddr amount utxos of
        Inl e \<Rightarrow> Inl e
      | Inr tx \<Rightarrow> signInputs signatureScript utxos tx [0..<length (TxIn tx)])"

subsection \<open>Quantities the statements about the transfer speak of\<close>

text \<open>The accumulator \<open>totalInput\<close> after the given unspent outputs: their values added in
  \<open>int64\<close> arithmetic.\<close>

definition totalOf :: "utxo list \<Rightarrow> Amount" where
  "totalOf us = sum_list (map Amount us)"





text \<open>Two transactions that differ in their signature scripts only.\<close>

definition sameSkeleton :: "msg_tx \<Rightarrow> msg_tx \<Rightarrow> bool" where
  "sameSkeleton tx tx' \<longleftrightarrow>
     Version tx' = Version tx \<and> LockTime tx' = LockTime tx \<and> TxOut tx' = TxOut tx \<and>
     map PreviousOutPoint (TxIn tx') = map PreviousOutPoint (TxIn tx) \<and>
     map Sequence (TxIn tx') = map Sequence (TxIn tx)"

subsection \<open>Example data\<close>

definition exUtxo :: "string \<Rightarrow> 32 word \<Rightarrow> Amount \<Rightarrow> utxo" where
  "exUtxo txid vout a =
     \<lparr>TxID = txid, Vout = vout,
      ScriptPubKey = ''76a914000102030405060708090a0b0c0d0e0f1011121388ac'', Amount = a\<rparr>"

definition txidA :: string where
  "txidA = ''a1a1a1a1a1a1a1a1a1a1a1a1a1a1a1a1a1a1a1a1a1a1a1a1a1a1a1a1a1a1a1a1''"

definition txidB :: string where
  "txidB = ''b2b2b2b2b2b2b2b2b2b2b2b2b2b2b2b2b2b2b2b2b2b2b2b2b2b2b2b2b2b2b2b2''"

definition txidC :: string where
  "txidC = ''c3c3c3c3c3c3c3c3c3c3c3c3c3c3c3c3c3c3c3c3c3c3c3c3c3c3c3c3c3c3c3c3''"


text \<open>Unspent outputs of 5, 3 and 2 thousand satoshis: the values 5, 3 and 2 in units of
  the fee.\<close>

definition utxos532 :: "utxo list" where
  "utxos532 = [exUtxo txidA 0 5000, exUtxo txidB 1 3000, exUtxo txidC 0 2000]"

definition toScript :: "byte list" where
  "toScript = [0x76, 0xa9, 0x14, 0x01, 0x88, 0xac]"

definition ownScript :: "byte list" where
  "ownScript = [0x76, 0xa9, 0x14, 0x02, 0x88, 0xac]"

text \<open>A stand-in for the signer that answers with the locking script it was handed.\<close>

definition echoSigner :: "msg_tx \<Rightarrow> nat \<Rightarrow> byte list \<Rightarrow> byte list option" where
  "echoSigner tx i scriptPubKey = Some scriptPubKey"

definition hashA :: "byte list" where
  "hashA = replicate 32 0xa1"

definition hashB :: "byte list" where
  "hashB = replicate 32 0xb2"

text \<open>The unsigned transaction the function builds from \<open>utxos532\<close> for an amount of 6000:
  two inputs, a payment of 6000 and a change of 1000.\<close>

definition tx532 :: msg_tx where
  "tx532 = \<lparr>Version = 1,
            TxIn = [NewTxIn (NewOutPoint hashA 0), NewTxIn (NewOutPoint hashB 1)],
            TxOut = [NewTxOut 6000 toScript, NewTxOut 1000 ownScript], LockTime = 0\<rparr>"





section \<open>Stacks: createStacksAccount and encodeC32Address\<close>

datatype stacks_error =
    MasterKeyFailed
  | DeriveKeyFailed
  | SliceOutOfRange

text \<open>The extended key of the library go-bip32, with the fields that identify a key;
  \<open>Key\<close> holds the private key bytes that \<open>createStacksAccount\<close> reads.\<close>

record bip32_key =
  Key :: "byte list"
  ChainCode :: "byte list"
  ChildNumber :: "byte list"
  FingerPrint :: "byte list"
  Depth :: byte
  IsPrivate :: bool

text \<open>Line 70: the path m/44'/5757'/0'/0/0.\<close>

definition stacksPath :: "32 word list" where
  "stacksPath = [44 + 0x80000000, 5757 + 0x80000000, 0 + 0x80000000, 0, 0]"

text \<open>
  Lines 71 to 77: the loop over the path. The library call \<open>key.NewChildKey(index)\<close> is a
  parameter; like every call into the library it runs in the state \<open>'w\<close> of the process
  and its surroundings, which it may read and change, and \<open>None\<close> is its error.
\<close>

fun deriveLoop ::
  "(bip32_key \<Rightarrow> 32 word \<Rightarrow> 'w \<Rightarrow> bip32_key option \<times> 'w) \<Rightarrow> bip32_key \<Rightarrow> 32 word list \<Rightarrow> 'w \<Rightarrow>
   (stacks_error + bip32_key) \<times> 'w" where
  "deriveLoop NewChildKey key [] w = (Inr key, w)"
| "deriveLoop NewChildKey key (index # path) w =
     (case NewChildKey key index w of
        (None, w') \<Rightarrow> (Inl DeriveKeyFailed, w')
      | (Some key', w') \<Rightarrow> deriveLoop NewChildKey key' path w')"

text \<open>Lines 64 to 77 for any path: the master key of the seed, then the loop.\<close>

definition derivePath ::
  "(byte list \<Rightarrow> 'w \<Rightarrow> bip32_key option \<times> 'w) \<Rightarrow>
   (bip32_key \<Rightarrow> 32 word \<Rightarrow> 'w \<Rightarrow> bip32_key option \<times> 'w) \<Rightarrow>
   byte list \<Rightarrow> 32 word list \<Rightarrow> 'w \<Rightarrow> (stacks_error + bip32_key) \<times> 'w" where
  "derivePath NewMasterKey NewChildKey seed path w =
     (case NewMasterKey seed w of
        (None, w') \<Rightarrow> (Inl MasterKeyFailed, w')
      | (Some masterKey, w') \<Rightarrow> deriveLoop NewChildKey masterKey path w')"

text \<open>Lines 212 to 217, over the two hash functions.\<close>

definition hash160 :: "(byte list \<Rightarrow> byte list) \<Rightarrow> (byte list \<Rightarrow> byte list) \<Rightarrow> byte list \<Rightarrow> byte list" where
  "hash160 sha256 ripemd160 data = ripemd160 (sha256 data)"

text \<open>
  Lines 222 to 232. The slice \<open>[:32]\<close> of the hexadecimal text panics in Go when the text
  has fewer than 32 characters.
\<close>

definition encodeC32Address :: "byte \<Rightarrow> byte list \<Rightarrow> stacks_error + string" where
  "encodeC32Address version hash =
     (let data = version # hash;
          prefix = (if version = 21 then ''ST'' else ''SP'');
          hexed = hexEncodeToString data
      in if length hexed < 32 then Inl SliceOutOfRange
         else Inr (prefix @ take 32 hexed))"

record StacksAccount =
  PrivateKey :: string
  Address :: string
  Mnemonic :: string

text \<open>Lines 79 to 104: the account of a derived key. \<open>serializeCompressed\<close> stands for the
  compressed public key of the private key bytes (btcec).\<close>

definition accountOfKey ::
  "(byte list \<Rightarrow> byte list) \<Rightarrow> (byte list \<Rightarrow> byte list) \<Rightarrow> (byte list \<Rightarrow> byte list) \<Rightarrow>
   bool \<Rightarrow> string \<Rightarrow> bip32_key \<Rightarrow> stacks_error + StacksAccount" where
  "accountOfKey sha256 ripemd160 serializeCompressed isMainnet mnemonic key =
     (let privateKey = Key key;
          publicKeyBytes = serializeCompressed privateKey;
          hash = hash160 sha256 ripemd160 publicKeyBytes;
          version = (if \<not> isMainnet then 21 else 26)
      in case encodeC32Address version hash of
           Inl e \<Rightarrow> Inl e
         | Inr address \<Rightarrow>
             Inr \<lparr>PrivateKey = hexEncodeToString privateKey, Address = address,
                  Mnemonic = mnemonic\<rparr>)"

text \<open>Lines 63 to 104 of \<open>createStacksAccount\<close>, from the seed of the mnemonic on.\<close>

definition createStacksAccount ::
  "(byte list \<Rightarrow> 'w \<Rightarrow> bip32_key option \<times> 'w) \<Rightarrow>
   (bip32_key \<Rightarrow> 32 word \<Rightarrow> 'w \<Rightarrow> bip32_key option \<times> 'w) \<Rightarrow>
   (byte list \<Rightarrow> byte list) \<Rightarrow> (byte list \<Rightarrow> byte list) \<Rightarrow> (byte list \<Rightarrow> byte list) \<Rightarrow>
   bool \<Rightarrow> string \<Rightarrow> byte list \<Rightarrow> 'w \<Rightarrow> (stacks_error + StacksAccount) \<times> 'w" where
  "createStacksAccount NewMasterKey NewChildKey sha256 ripemd160 serializeCompressed
       isMainnet mnemonic seed w =
     (case derivePath NewMasterKey NewChildKey seed stacksPath w of
        (Inl e, w') \<Rightarrow> (Inl e, w')
      | (Inr key, w') \<Rightarrow>
          (accountOfKey sha256 ripemd160 serializeCompressed isMainnet mnemonic key, w'))"

subsection \<open>The derivation as the specification words it\<close>

text \<open>An element of a path is hardened when it is at least \<open>2 ^ 31\<close>; its index is the
  element without that flag.\<close>

definition hardened :: "32 word \<Rightarrow> bool" where
  "hardened e \<longleftrightarrow> 0x80000000 \<le> e"

definition childIndex :: "32 word \<Rightarrow> 32 word" where
  "childIndex e = (if hardened e then e - 0x80000000 else e)"

text \<open>\<open>DeriveChild(parent, index, hardened)\<close>: the library's child with the number
  \<open>index\<close>, plus \<open>2 ^ 31\<close> when hardened.\<close>

definition DeriveChild ::
  "(bip32_key \<Rightarrow> 32 word \<Rightarrow> 'w \<Rightarrow> bip32_key option \<times> 'w) \<Rightarrow> bip32_key \<Rightarrow> 32 word \<Rightarrow> bool \<Rightarrow> 'w \<Rightarrow>
   bip32_key option \<times> 'w" where
  "DeriveChild NewChildKey parent index hard w =
     NewChildKey parent (if hard then index + 0x80000000 else index) w"

text \<open>\<open>DerivePath\<close>: \<open>DeriveChild\<close> applied to the elements of the path in their order, the
  hardened flag of each step taken from the element.\<close>

fun DerivePath ::
  "(bip32_key \<Rightarrow> 32 word \<Rightarrow> 'w \<Rightarrow> bip32_key option \<times> 'w) \<Rightarrow> bip32_key \<Rightarrow> 32 word list \<Rightarrow> 'w \<Rightarrow>
   (stacks_error + bip32_key) \<times> 'w" where
  "DerivePath NewChildKey key [] w = (Inr key, w)"
| "DerivePath NewChildKey key (e # path) w =
     (case DeriveChild NewChildKey key (childIndex e) (hardened e) w of
        (None, w') \<Rightarrow> (Inl DeriveKeyFailed, w')
      | (Some key', w') \<Rightarrow> DerivePath NewChildKey key' path w')"

subsection \<open>Example data\<close>

text \<open>Stand-ins for the library: deterministic functions of their arguments that count
  their calls in the state.\<close>

definition countingMasterKey :: "byte list \<Rightarrow> nat \<Rightarrow> bip32_key option \<times> nat" where
  "countingMasterKey seed w =
     (if length seed < 16 \<or> 64 < length seed then None
      else Some \<lparr>Key = take 32 seed, ChainCode = drop 32 seed, ChildNumber = [0, 0, 0, 0],
                 FingerPrint = [0, 0, 0, 0], Depth = 0, IsPrivate = True\<rparr>,
      Suc w)"

definition countingChildKey :: "bip32_key \<Rightarrow> 32 word \<Rightarrow> nat \<Rightarrow> bip32_key option \<times> nat" where
  "countingChildKey key index w =
     (Some (key\<lparr>Key := map (\<lambda>b. b + ucast index) (Key key), Depth := Depth key + 1\<rparr>), Suc w)"

definition seed32 :: "byte list" where
  "seed32 = map of_nat [0..<32]"

definition hashP :: "byte list" where
  "hashP = [0x01, 0x02, 0x03, 0x04, 0x05, 0x06, 0x07, 0x08, 0x09, 0x0a,
            0x0b, 0x0c, 0x0d, 0x0e, 0x0f, 0x10, 0x11, 0x12, 0x13, 0x14]"

definition hashQ :: "byte list" where
  "hashQ = [0x01, 0x02, 0x03, 0x04, 0x05, 0x06, 0x07, 0x08, 0x09, 0x0a,
            0x0b, 0x0c, 0x0d, 0x0e, 0x0f, 0x10, 0x11, 0x12, 0x13, 0xff]"

section \<open>Tron: deriveTronAddress\<close>

datatype tron_error =
    TronSliceOutOfRange
  | Base58ToAddressFailed

text \<open>
  Lines 164 to 181. The calls into libraries are parameters: \<open>FromECDSAPub\<close> (the 65 bytes
  of the uncompressed key), \<open>Keccak256\<close>, \<open>Sum256\<close> (SHA-256), \<open>base58Encode\<close> and
  \<open>Base58ToAddress\<close> (\<open>None\<close> is its error). The slices \<open>publicKeyBytes[1:]\<close> and
  \<open>hash[12:]\<close> panic in Go when the bytes are fewer.
\<close>

definition deriveTronAddress ::
  "('pub \<Rightarrow> byte list) \<Rightarrow> (byte list \<Rightarrow> byte list) \<Rightarrow> (byte list \<Rightarrow> byte list) \<Rightarrow>
   (byte list \<Rightarrow> string) \<Rightarrow> (string \<Rightarrow> 'addr option) \<Rightarrow> 'pub \<Rightarrow> tron_error + 'addr" where
  "deriveTronAddress FromECDSAPub Keccak256 Sum256 base58Encode Base58ToAddress publicKeyECDSA =
     (let publicKeyBytes = FromECDSAPub publicKeyECDSA
      in if length publicKeyBytes < 1 then Inl TronSliceOutOfRange
         else
           (let hash = Keccak256 (drop 1 publicKeyBytes)
            in if length hash < 12 then Inl TronSliceOutOfRange
               else
                 (let ethAddress = drop 12 hash;
                      tronAddrBytes = 0x41 # ethAddress;
                      h1 = Sum256 tronAddrBytes;
                      h2 = Sum256 h1;
                      checksum = take 4 h2;
                      tronAddrBytes' = tronAddrBytes @ checksum;
                      base58Addr = base58Encode tronAddrBytes'
                  in case Base58ToAddress base58Addr of
                       None \<Rightarrow> Inl Base58ToAddressFailed
                     | Some addr \<Rightarrow> Inr addr)))"

subsection \<open>The address as the specification words it\<close>

text \<open>The last 20 bytes of the Keccak-256 hash of the uncompressed public key without
  its leading format byte.\<close>

definition keccakPayload :: "(byte list \<Rightarrow> byte list) \<Rightarrow> byte list \<Rightarrow> byte list" where
  "keccakPayload Keccak256 pubkey =
     (let h = Keccak256 (tl pubkey) in drop (length h - 20) h)"

text \<open>Base58Check: the version byte before the payload, the first four bytes of the
  double SHA-256 of both after it, the whole in Base58.\<close>

definition Base58Check ::
  "(byte list \<Rightarrow> string) \<Rightarrow> (byte list \<Rightarrow> byte list) \<Rightarrow> byte \<Rightarrow> byte list \<Rightarrow> string" where
  "Base58Check base58Encode Sum256 version payload =
     base58Encode ((version # payload) @ take 4 (Sum256 (Sum256 (version # payload))))"

subsection \<open>Example data\<close>

text \<open>Stand-ins for the hash functions and the key: 32 bytes that depend on the input.\<close>

definition pad32 :: "byte list \<Rightarrow> byte list" where
  "pad32 bs = take 32 (rev bs @ replicate 32 0x5a)"

definition pubkey65 :: "byte list" where
  "pubkey65 = 0x04 # map of_nat [1..<65]"


section \<open>Litecoin: properties of the transfer\<close>

subsection \<open>The selection loop\<close>

lemma totalOf_Nil: "totalOf [] = 0"
  by (simp add: totalOf_def)

lemma totalOf_Cons: "totalOf (u # us) = Amount u + totalOf us"
  by (simp add: totalOf_def)


lemma selectInputs_prefix:
  "selectInputs amount us ins t = Inr (ins', t') \<Longrightarrow>
   \<exists>k\<le>length us. (us \<noteq> [] \<longrightarrow> 0 < k) \<and>
     map Some ins' = map Some ins @ map inputOf (take k us) \<and>
     t' = t + totalOf (take k us) \<and>
     (\<forall>j. 0 < j \<and> j < k \<longrightarrow> t + totalOf (take j us) <s amount + 1000) \<and>
     (amount + 1000 \<le>s t' \<or> k = length us)"
proof (induction us arbitrary: ins t)
  case Nil
  then show ?case by (auto simp: totalOf_Nil)
next
  case (Cons u us)
  from Cons.prems obtain txIn where u: "inputOf u = Some txIn"
    by (auto split: option.splits)
  show ?case
  proof (cases "amount + 1000 \<le>s t + Amount u")
    case True
    with Cons.prems u have "ins' = ins @ [txIn]" "t' = t + Amount u"
      by (auto simp: Let_def)
    with True u show ?thesis
      by (intro exI[of _ 1]) (auto simp: totalOf_Nil totalOf_Cons)
  next
    case False
    with Cons.prems u have rec: "selectInputs amount us (ins @ [txIn]) (t + Amount u) = Inr (ins', t')"
      by (auto simp: Let_def)
    from Cons.IH[OF rec] obtain k where k: "k \<le> length us"
      "map Some ins' = map Some (ins @ [txIn]) @ map inputOf (take k us)"
      "t' = t + Amount u + totalOf (take k us)"
      "\<forall>j. 0 < j \<and> j < k \<longrightarrow> t + Amount u + totalOf (take j us) <s amount + 1000"
      "amount + 1000 \<le>s t' \<or> k = length us"
      by blast
    have "\<forall>j. 0 < j \<and> j < Suc k \<longrightarrow> t + totalOf (take j (u # us)) <s amount + 1000"
    proof (intro allI impI)
      fix j assume j: "0 < j \<and> j < Suc k"
      then obtain j' where j': "j = Suc j'" by (cases j) auto
      show "t + totalOf (take j (u # us)) <s amount + 1000"
      proof (cases "j' = 0")
        case True
        with False j' show ?thesis by (simp add: signed.not_le totalOf_Nil totalOf_Cons)
      next
        case F: False
        with j j' k(4) have "t + Amount u + totalOf (take j' us) <s amount + 1000" by auto
        with j' show ?thesis by (simp add: add.assoc totalOf_Cons)
      qed
    qed
    with k u show ?thesis
      by (intro exI[of _ "Suc k"]) (auto simp: add.assoc totalOf_Cons)
  qed
qed


subsection \<open>The unsigned transaction\<close>

lemma buildTx_Inr:
  assumes "buildTx p toA fromA amount utxos = Inr tx"
  shows "\<exists>totalInput pkScript.
    utxos \<noteq> [] \<and>
    selectInputs amount utxos [] 0 = Inr (TxIn tx, totalInput) \<and>
    amount + 1000 \<le>s totalInput \<and>
    p toA = Some pkScript \<and>
    Version tx = 1 \<and> LockTime tx = 0 \<and>
    (if 0 <s totalInput - amount - 1000
     then \<exists>cs. p fromA = Some cs \<and>
            TxOut tx = [NewTxOut amount pkScript, NewTxOut (totalInput - amount - 1000) cs]
     else TxOut tx = [NewTxOut amount pkScript])"
  using assms
  by (auto simp: buildTx_def Let_def NewMsgTx_def signed.not_less
      split: if_splits sum.splits option.splits prod.splits)

lemma map_Some_eq_length: "map Some xs = map f ys \<Longrightarrow> length xs = length ys"
  by (metis length_map)

lemma buildTx_prefix:
  assumes "buildTx p toA fromA amount utxos = Inr tx"
  shows "0 < length (TxIn tx) \<and> length (TxIn tx) \<le> length utxos \<and>
         map Some (TxIn tx) = map inputOf (take (length (TxIn tx)) utxos) \<and>
         selectInputs amount utxos [] 0 = Inr (TxIn tx, totalOf (take (length (TxIn tx)) utxos)) \<and>
         amount + 1000 \<le>s totalOf (take (length (TxIn tx)) utxos) \<and>
         (\<forall>j. 0 < j \<and> j < length (TxIn tx) \<longrightarrow> totalOf (take j utxos) <s amount + 1000)"
proof -
  from buildTx_Inr[OF assms] obtain totalInput where ne: "utxos \<noteq> []"
    and sel: "selectInputs amount utxos [] 0 = Inr (TxIn tx, totalInput)"
    and cov: "amount + 1000 \<le>s totalInput"
    by blast
  from selectInputs_prefix[OF sel] ne obtain k where k: "k \<le> length utxos" "0 < k"
    "map Some (TxIn tx) = map inputOf (take k utxos)"
    "totalInput = totalOf (take k utxos)"
    "\<forall>j. 0 < j \<and> j < k \<longrightarrow> totalOf (take j utxos) <s amount + 1000"
    by auto
  from k(1) have "length (TxIn tx) = k" using map_Some_eq_length[OF k(3)] by simp
  with k cov sel show ?thesis by simp
qed



subsection \<open>Integer values while nothing wraps\<close>






subsection \<open>The signing loop\<close>

lemma sameSkeleton_refl: "sameSkeleton tx tx"
  by (simp add: sameSkeleton_def)

lemma sameSkeleton_trans: "sameSkeleton a b \<Longrightarrow> sameSkeleton b c \<Longrightarrow> sameSkeleton a c"
  by (simp add: sameSkeleton_def)

lemma sameSkeleton_sym: "sameSkeleton a b \<Longrightarrow> sameSkeleton b a"
  by (simp add: sameSkeleton_def)

lemma sameSkeleton_length: "sameSkeleton a b \<Longrightarrow> length (TxIn b) = length (TxIn a)"
  unfolding sameSkeleton_def by (metis length_map)

lemma map_update_same: "(map f xs)[i := f (xs ! i)] = map f xs"
  by (cases "i < length xs") (simp_all add: list_update_same_conv list_update_beyond)

lemma sameSkeleton_update:
  "sameSkeleton tx (tx\<lparr>TxIn := (TxIn tx)[i := (TxIn tx ! i)\<lparr>SignatureScript := s\<rparr>]\<rparr>)"
  by (simp add: sameSkeleton_def map_update map_update_same)

lemma signInputs_skeleton:
  "signInputs sg utxos tx is = Inr tx' \<Longrightarrow> sameSkeleton tx tx'"
proof (induction "is" arbitrary: tx)
  case Nil
  then show ?case by (simp add: sameSkeleton_refl)
next
  case (Cons i "is")
  from Cons.prems obtain s where
    "signInputs sg utxos (tx\<lparr>TxIn := (TxIn tx)[i := (TxIn tx ! i)\<lparr>SignatureScript := s\<rparr>]\<rparr>) is = Inr tx'"
    by (auto split: if_splits option.splits)
  from Cons.IH[OF this] show ?case
    by (rule sameSkeleton_trans[OF sameSkeleton_update])
qed

lemma signInputs_other:
  "signInputs sg utxos tx is = Inr tx' \<Longrightarrow> i \<notin> set is \<Longrightarrow> TxIn tx' ! i = TxIn tx ! i"
proof (induction "is" arbitrary: tx)
  case Nil
  then show ?case by simp
next
  case (Cons j "is")
  from Cons.prems(1) obtain s where
    r: "signInputs sg utxos (tx\<lparr>TxIn := (TxIn tx)[j := (TxIn tx ! j)\<lparr>SignatureScript := s\<rparr>]\<rparr>) is = Inr tx'"
    by (auto split: if_splits option.splits)
  from Cons.prems(2) have "i \<noteq> j" "i \<notin> set is" by auto
  with Cons.IH[OF r] show ?case by simp
qed

lemma signInputs_signed:
  "signInputs sg utxos tx is = Inr tx' \<Longrightarrow> distinct is \<Longrightarrow> i \<in> set is \<Longrightarrow> i < length (TxIn tx) \<Longrightarrow>
   i < length utxos \<and>
   (\<exists>txi spk. sameSkeleton tx txi \<and> hexDecodeString (ScriptPubKey (utxos ! i)) = Some spk \<and>
       sg txi i spk = Some (SignatureScript (TxIn tx' ! i)))"
proof (induction "is" arbitrary: tx)
  case Nil
  then show ?case by simp
next
  case (Cons j "is")
  from Cons.prems(1) obtain spk s where j: "j < length utxos"
    and spk: "hexDecodeString (ScriptPubKey (utxos ! j)) = Some spk"
    and s: "sg tx j spk = Some s"
    and r: "signInputs sg utxos (tx\<lparr>TxIn := (TxIn tx)[j := (TxIn tx ! j)\<lparr>SignatureScript := s\<rparr>]\<rparr>) is = Inr tx'"
    by (auto split: if_splits option.splits)
  let ?tx1 = "tx\<lparr>TxIn := (TxIn tx)[j := (TxIn tx ! j)\<lparr>SignatureScript := s\<rparr>]\<rparr>"
  show ?case
  proof (cases "i = j")
    case True
    with Cons.prems(2) have "i \<notin> set is" by simp
    from signInputs_other[OF r this] True Cons.prems(4)
    have "SignatureScript (TxIn tx' ! i) = s" by simp
    with True j spk s sameSkeleton_refl[of tx] show ?thesis by blast
  next
    case False
    with Cons.prems have "distinct is" "i \<in> set is" "i < length (TxIn ?tx1)" by auto
    from Cons.IH[OF r this] obtain txi spk' where
      "i < length utxos" "sameSkeleton ?tx1 txi"
      "hexDecodeString (ScriptPubKey (utxos ! i)) = Some spk'"
      "sg txi i spk' = Some (SignatureScript (TxIn tx' ! i))"
      by blast
    moreover have "sameSkeleton tx ?tx1" by (rule sameSkeleton_update)
    ultimately show ?thesis using sameSkeleton_trans by blast
  qed
qed

lemma SendLitecoinTransaction_Inr:
  "SendLitecoinTransaction p sg toA fromA amount utxos = Inr tx' \<Longrightarrow>
   \<exists>tx. buildTx p toA fromA amount utxos = Inr tx \<and>
        signInputs sg utxos tx [0..<length (TxIn tx)] = Inr tx'"
  by (auto simp: SendLitecoinTransaction_def split: sum.splits)


subsection \<open>Evaluations on the example data\<close>




subsection \<open>The claims about the transfer\<close>












text \<open>
  C9. In the signed transaction, input \<open>i\<close> belongs to \<open>utxos ! i\<close>: the index is in the
  range of the list, the outpoint is made from the txid and the output index of
  \<open>utxos ! i\<close>, and the signature script is what the signer returned when it was handed
  the index \<open>i\<close> and the decoded \<open>ScriptPubKey\<close> of \<open>utxos ! i\<close>, for a transaction with the
  same inputs and outputs.
\<close>

theorem inputs_aligned_with_utxos:
  assumes "SendLitecoinTransaction payToAddrScript signatureScript toAddr fromAddr amount utxos = Inr tx"
    and "i < length (TxIn tx)"
  shows "i < length utxos \<and>
         (\<exists>txid. hexDecodeString (TxID (utxos ! i)) = Some txid \<and>
            PreviousOutPoint (TxIn tx ! i) = NewOutPoint (copyHash txid) (Vout (utxos ! i))) \<and>
         (\<exists>txi scriptPubKey. sameSkeleton txi tx \<and>
            hexDecodeString (ScriptPubKey (utxos ! i)) = Some scriptPubKey \<and>
            signatureScript txi i scriptPubKey = Some (SignatureScript (TxIn tx ! i)))"
proof -
  from SendLitecoinTransaction_Inr[OF assms(1)] obtain tx0 where
    b: "buildTx payToAddrScript toAddr fromAddr amount utxos = Inr tx0"
    and s: "signInputs signatureScript utxos tx0 [0..<length (TxIn tx0)] = Inr tx" by blast
  have sk: "sameSkeleton tx0 tx" by (rule signInputs_skeleton[OF s])
  then have len: "length (TxIn tx) = length (TxIn tx0)" by (rule sameSkeleton_length)
  with assms(2) have i: "i < length (TxIn tx0)" by simp
  from buildTx_prefix[OF b] have le: "length (TxIn tx0) \<le> length utxos"
    and pre: "map Some (TxIn tx0) = map inputOf (take (length (TxIn tx0)) utxos)" by auto
  from i le have iu: "i < length utxos" by simp
  from pre i le have "Some (TxIn tx0 ! i) = inputOf (utxos ! i)"
    by (metis length_map nth_map nth_take)
  then obtain txid where txid: "hexDecodeString (TxID (utxos ! i)) = Some txid"
    and inp: "TxIn tx0 ! i = NewTxIn (NewOutPoint (copyHash txid) (Vout (utxos ! i)))"
    by (auto simp: inputOf_def split: option.splits)
  from sk i len have "PreviousOutPoint (TxIn tx ! i) = PreviousOutPoint (TxIn tx0 ! i)"
    unfolding sameSkeleton_def by (metis nth_map)
  with inp have op: "PreviousOutPoint (TxIn tx ! i) = NewOutPoint (copyHash txid) (Vout (utxos ! i))"
    by (simp add: NewTxIn_def)
  from signInputs_signed[OF s _ _ i] i obtain txi spk where
    t: "sameSkeleton tx0 txi" "hexDecodeString (ScriptPubKey (utxos ! i)) = Some spk"
      "signatureScript txi i spk = Some (SignatureScript (TxIn tx ! i))" by auto
  have "sameSkeleton txi tx" using t(1) sk by (simp add: sameSkeleton_def)
  with iu txid op t show ?thesis by blast
qed

lemma Send_532:
  "SendLitecoinTransaction Some echoSigner toScript ownScript 6000 utxos532 =
     Inr (tx532\<lparr>TxIn := map (\<lambda>txIn. txIn\<lparr>SignatureScript :=
            the (hexDecodeString ''76a914000102030405060708090a0b0c0d0e0f1011121388ac'')\<rparr>) (TxIn tx532)\<rparr>)"
  by code_simp

theorem inputs_aligned_with_utxos_witness:
  "SendLitecoinTransaction Some echoSigner toScript ownScript 6000 utxos532 =
     Inr (tx532\<lparr>TxIn := map (\<lambda>txIn. txIn\<lparr>SignatureScript :=
            the (hexDecodeString ''76a914000102030405060708090a0b0c0d0e0f1011121388ac'')\<rparr>) (TxIn tx532)\<rparr>) \<and>
   (1::nat) < length (TxIn tx532) \<and> (1::nat) < length utxos532 \<and>
   hexDecodeString (TxID (utxos532 ! 1)) = Some hashB \<and>
   PreviousOutPoint (TxIn tx532 ! 1) = NewOutPoint (copyHash hashB) (Vout (utxos532 ! 1))"
proof -
  let ?tx = "tx532\<lparr>TxIn := map (\<lambda>txIn. txIn\<lparr>SignatureScript :=
            the (hexDecodeString ''76a914000102030405060708090a0b0c0d0e0f1011121388ac'')\<rparr>) (TxIn tx532)\<rparr>"
  have l: "1 < length (TxIn ?tx)" by (simp add: tx532_def)
  have h: "hexDecodeString (TxID (utxos532 ! 1)) = Some hashB" by code_simp
  from inputs_aligned_with_utxos[OF Send_532 l] h
  have "1 < length utxos532"
    "PreviousOutPoint (TxIn ?tx ! 1) = NewOutPoint (copyHash hashB) (Vout (utxos532 ! 1))"
    by auto
  with h l Send_532 show ?thesis by (simp add: tx532_def)
qed




section \<open>Stacks: properties of the derivation and of the address text\<close>

lemma deriveLoop_state_independent:
  assumes "\<forall>key index w w'. fst (NewChildKey key index w) = fst (NewChildKey key index w')"
  shows "fst (deriveLoop NewChildKey key path w1) = fst (deriveLoop NewChildKey key path w2)"
proof (induction path arbitrary: key w1 w2)
  case Nil
  show ?case by simp
next
  case (Cons index path)
  obtain r1 w1' where c1: "NewChildKey key index w1 = (r1, w1')" by (cases "NewChildKey key index w1")
  obtain r2 w2' where c2: "NewChildKey key index w2 = (r2, w2')" by (cases "NewChildKey key index w2")
  from assms[rule_format, of key index w1 w2] c1 c2 have r: "r1 = r2" by simp
  show ?case
  proof (cases r1)
    case None
    with r c1 c2 show ?thesis by simp
  next
    case (Some key')
    with r have "r2 = Some key'" by simp
    with Some c1 c2 Cons.IH[of key' w1' w2'] show ?thesis by simp
  qed
qed

lemma derivePath_state_independent:
  assumes m: "\<forall>seed w w'. fst (NewMasterKey seed w) = fst (NewMasterKey seed w')"
    and c: "\<forall>key index w w'. fst (NewChildKey key index w) = fst (NewChildKey key index w')"
  shows "fst (derivePath NewMasterKey NewChildKey seed path w1) =
         fst (derivePath NewMasterKey NewChildKey seed path w2)"
proof -
  obtain r1 w1' where c1: "NewMasterKey seed w1 = (r1, w1')" by (cases "NewMasterKey seed w1")
  obtain r2 w2' where c2: "NewMasterKey seed w2 = (r2, w2')" by (cases "NewMasterKey seed w2")
  from m[rule_format, of seed w1 w2] c1 c2 have r: "r1 = r2" by simp
  show ?thesis
  proof (cases r1)
    case None
    with r c1 c2 show ?thesis by (simp add: derivePath_def)
  next
    case (Some key)
    with r have "r2 = Some key" by simp
    with Some c1 c2 deriveLoop_state_independent[OF c, of key path w1' w2']
    show ?thesis by (simp add: derivePath_def)
  qed
qed

text \<open>
  C1. When the two library calls return what their arguments determine, whatever the
  state they run in, the derivation does too: for every seed and every path, two runs
  that start in any two states end with the same result, the same key with the same
  private key bytes or the same error, and the account made from the key by
  \<open>createStacksAccount\<close>, with its private key and its address, is the same in both.
\<close>

theorem derivation_deterministic:
  assumes "\<forall>seed w w'. fst (NewMasterKey seed w) = fst (NewMasterKey seed w')"
    and "\<forall>key index w w'. fst (NewChildKey key index w) = fst (NewChildKey key index w')"
  shows "fst (derivePath NewMasterKey NewChildKey seed path w1) =
           fst (derivePath NewMasterKey NewChildKey seed path w2) \<and>
         fst (createStacksAccount NewMasterKey NewChildKey sha256 ripemd160 serializeCompressed
                isMainnet mnemonic seed w1) =
           fst (createStacksAccount NewMasterKey NewChildKey sha256 ripemd160 serializeCompressed
                isMainnet mnemonic seed w2)"
proof
  show d: "fst (derivePath NewMasterKey NewChildKey seed path w1) =
           fst (derivePath NewMasterKey NewChildKey seed path w2)" for path
    using assms by (rule derivePath_state_independent)
  obtain r1 w1' where c1: "derivePath NewMasterKey NewChildKey seed stacksPath w1 = (r1, w1')"
    by (cases "derivePath NewMasterKey NewChildKey seed stacksPath w1")
  obtain r2 w2' where c2: "derivePath NewMasterKey NewChildKey seed stacksPath w2 = (r2, w2')"
    by (cases "derivePath NewMasterKey NewChildKey seed stacksPath w2")
  from d[of stacksPath] c1 c2 have "r1 = r2" by simp
  with c1 c2
  show "fst (createStacksAccount NewMasterKey NewChildKey sha256 ripemd160 serializeCompressed
                isMainnet mnemonic seed w1) =
           fst (createStacksAccount NewMasterKey NewChildKey sha256 ripemd160 serializeCompressed
                isMainnet mnemonic seed w2)"
    by (cases r2) (simp_all add: createStacksAccount_def)
qed

theorem derivation_deterministic_witness:
  "(\<forall>seed w w'. fst (countingMasterKey seed w) = fst (countingMasterKey seed w')) \<and>
   (\<forall>key index w w'. fst (countingChildKey key index w) = fst (countingChildKey key index w')) \<and>
   snd (derivePath countingMasterKey countingChildKey seed32 stacksPath 0) = 6 \<and>
   snd (derivePath countingMasterKey countingChildKey seed32 stacksPath 10) = 16 \<and>
   fst (derivePath countingMasterKey countingChildKey seed32 stacksPath 0) =
     fst (derivePath countingMasterKey countingChildKey seed32 stacksPath 10)"
proof -
  have m: "\<forall>seed w w'. fst (countingMasterKey seed w) = fst (countingMasterKey seed w')"
    by (simp add: countingMasterKey_def)
  have c: "\<forall>key index w w'. fst (countingChildKey key index w) = fst (countingChildKey key index w')"
    by (simp add: countingChildKey_def)
  have s0: "snd (derivePath countingMasterKey countingChildKey seed32 stacksPath 0) = 6"
    by code_simp
  have s1: "snd (derivePath countingMasterKey countingChildKey seed32 stacksPath 10) = 16"
    by code_simp
  from derivation_deterministic[OF m c, of seed32 stacksPath 0 10] m c s0 s1
  show ?thesis by blast
qed

lemma hardened_recombine:
  "(if hardened e then childIndex e + 0x80000000 else childIndex e) = e"
  by (simp add: childIndex_def)

lemma deriveLoop_DerivePath:
  "deriveLoop NewChildKey key path w = DerivePath NewChildKey key path w"
  by (induction path arbitrary: key w)
     (simp_all add: DeriveChild_def hardened_recombine split: prod.splits option.splits)

lemma hardened_high_bit: "hardened e \<longleftrightarrow> bit e 31"
proof -
  have lt: "unat e < 2 ^ 32" using unsigned_less[of e, where 'a = nat] by simp
  have "bit e 31 \<longleftrightarrow> bit (unat e) 31"
    by (simp add: bit_unsigned_iff)
  also have "\<dots> \<longleftrightarrow> odd (unat e div 2 ^ 31)"
    by (simp add: bit_iff_odd)
  also have "\<dots> \<longleftrightarrow> 2 ^ 31 \<le> unat e"
  proof (cases "2 ^ 31 \<le> unat e")
    case True
    with lt have "unat e div 2 ^ 31 = 1" by simp
    with True show ?thesis by simp
  next
    case False
    then have "unat e div 2 ^ 31 = 0" by simp
    with False show ?thesis by simp
  qed
  also have "\<dots> \<longleftrightarrow> 0x80000000 \<le> e"
    by (simp add: word_le_nat_alt)
  finally show ?thesis by (simp add: hardened_def)
qed

text \<open>
  C6. The loop of \<open>createStacksAccount\<close> is \<open>DerivePath\<close>: it applies \<open>DeriveChild\<close> to the
  elements of the path one after another, from the key the step before returned, and
  stops at the first error; the hardened flag of a step is the high bit of the element,
  set exactly when the element is at least \<open>2 ^ 31\<close>. The path of the Stacks derivation is
  44, 5757 and 0 hardened, then 0 and 0 not hardened.
\<close>

theorem derive_path_sequential:
  "deriveLoop NewChildKey key path w = DerivePath NewChildKey key path w \<and>
   derivePath NewMasterKey NewChildKey seed stacksPath w =
     (case NewMasterKey seed w of
        (None, w') \<Rightarrow> (Inl MasterKeyFailed, w')
      | (Some masterKey, w') \<Rightarrow> DerivePath NewChildKey masterKey stacksPath w') \<and>
   hardened e = bit e 31 \<and> hardened e = (2 ^ 31 \<le> unat e) \<and>
   stacksPath = [44 + 2 ^ 31, 5757 + 2 ^ 31, 0 + 2 ^ 31, 0, 0] \<and>
   map (\<lambda>e. (unat (childIndex e), hardened e)) stacksPath =
     [(44, True), (5757, True), (0, True), (0, False), (0, False)]"
proof (intro conjI)
  show "deriveLoop NewChildKey key path w = DerivePath NewChildKey key path w"
    by (rule deriveLoop_DerivePath)
  show "derivePath NewMasterKey NewChildKey seed stacksPath w =
     (case NewMasterKey seed w of
        (None, w') \<Rightarrow> (Inl MasterKeyFailed, w')
      | (Some masterKey, w') \<Rightarrow> DerivePath NewChildKey masterKey stacksPath w')"
    unfolding derivePath_def deriveLoop_DerivePath ..
  show "hardened e = bit e 31" by (rule hardened_high_bit)
  show "hardened e = (2 ^ 31 \<le> unat e)" by (simp add: hardened_def word_le_nat_alt)
  show "stacksPath = [44 + 2 ^ 31, 5757 + 2 ^ 31, 0 + 2 ^ 31, 0, 0]"
    by (simp add: stacksPath_def)
  show "map (\<lambda>e. (unat (childIndex e), hardened e)) stacksPath =
     [(44, True), (5757, True), (0, True), (0, False), (0, False)]"
    by (simp add: stacksPath_def childIndex_def hardened_def)
qed

text \<open>
  C8 fails on the code. \<open>encodeC32Address\<close> keeps the first 32 hexadecimal digits of the
  version and the hash, that is the version and 15 bytes of the hash: two hashes of 20
  bytes that differ in their last byte have the same address text, so no decoding gives
  back the hash.
\<close>

theorem encodeC32Address_collision:
  "length hashP = 20 \<and> length hashQ = 20 \<and> hashP \<noteq> hashQ \<and>
   encodeC32Address 26 hashP = Inr ''SP1a0102030405060708090a0b0c0d0e0f'' \<and>
   encodeC32Address 26 hashQ = Inr ''SP1a0102030405060708090a0b0c0d0e0f'' \<and>
   \<not> (\<exists>decode. decode (encodeC32Address 26 hashP) = (hashP, 26 :: byte) \<and>
                decode (encodeC32Address 26 hashQ) = (hashQ, 26 :: byte))"
proof -
  have p: "encodeC32Address 26 hashP = Inr ''SP1a0102030405060708090a0b0c0d0e0f''"
    by code_simp
  have q: "encodeC32Address 26 hashQ = Inr ''SP1a0102030405060708090a0b0c0d0e0f''"
    by code_simp
  have n: "hashP \<noteq> hashQ" by (simp add: hashP_def hashQ_def)
  have l: "length hashP = 20" "length hashQ = 20" by (simp_all add: hashP_def hashQ_def)
  from p q n l show ?thesis by auto
qed

section \<open>Tron: the address is Base58Check of the Keccak payload\<close>

text \<open>
  C7. For a hash function \<open>Keccak256\<close> that returns 32 bytes and a public key whose
  uncompressed form is not empty, \<open>deriveTronAddress\<close> hands to \<open>Base58ToAddress\<close> the
  Base58Check text with the version byte 0x41 of the last 20 bytes of the Keccak-256 hash
  of the uncompressed public key without its leading format byte, and returns its
  answer.
\<close>

theorem tron_address_base58check:
  assumes "\<forall>x. length (Keccak256 x) = 32"
    and "FromECDSAPub publicKeyECDSA \<noteq> []"
  shows "deriveTronAddress FromECDSAPub Keccak256 Sum256 base58Encode Base58ToAddress publicKeyECDSA =
           (case Base58ToAddress
                   (Base58Check base58Encode Sum256 0x41
                      (keccakPayload Keccak256 (FromECDSAPub publicKeyECDSA))) of
              None \<Rightarrow> Inl Base58ToAddressFailed
            | Some addr \<Rightarrow> Inr addr) \<and>
         length (keccakPayload Keccak256 (FromECDSAPub publicKeyECDSA)) = 20"
proof -
  from assms(2) have d: "drop (Suc 0) (FromECDSAPub publicKeyECDSA) = tl (FromECDSAPub publicKeyECDSA)"
    by (simp add: drop_Suc)
  from assms(1) have l: "length (Keccak256 (tl (FromECDSAPub publicKeyECDSA))) = 32" by simp
  show ?thesis
    using assms(2) by (simp add: deriveTronAddress_def Let_def d l keccakPayload_def Base58Check_def)
qed

theorem tron_address_base58check_witness:
  "(\<forall>x. length (pad32 x) = 32) \<and> pubkey65 \<noteq> [] \<and>
   deriveTronAddress (\<lambda>pub. pub) pad32 pad32 hexEncodeToString Some pubkey65 =
     Inr (Base58Check hexEncodeToString pad32 0x41 (keccakPayload pad32 pubkey65)) \<and>
   length (keccakPayload pad32 pubkey65) = 20"
proof -
  have h: "\<forall>x. length (pad32 x) = 32" by (auto simp: pad32_def)
  have p: "(\<lambda>pub. pub) pubkey65 \<noteq> []" by (simp add: pubkey65_def)
  from tron_address_base58check[of pad32 "\<lambda>pub. pub" pubkey65 pad32 hexEncodeToString Some, OF h p] h p
  show ?thesis by simp
qed

end
